theory Spec2Isabelle
  imports Main
begin

section \<open>The type model consumed by the checker\<close>

text \<open>
  \<^verbatim>\<open>expressions.py\<close> imports \<^verbatim>\<open>Type\<close>, \<^verbatim>\<open>NoSuchMethod\<close> and \<^verbatim>\<open>ClassOrInterface\<close> from
  the module \<^verbatim>\<open>types\<close> and defines \<^verbatim>\<open>JavaTypeError\<close> itself. An exception is a value
  of \<open>error\<close>; a computation that may raise returns \<open>error + 'a\<close>, with \<open>Inl\<close> for the
  exception. \<open>AttributeError\<close> stands for Python's own failure when a type object lacks
  the attribute or method that is looked up on it.
\<close>

datatype error = NoSuchMethod string | JavaTypeError string | AttributeError string

text \<open>
  A constructor signature has \<^verbatim>\<open>argument_types\<close>; a method signature has
  \<^verbatim>\<open>argument_types\<close> and \<^verbatim>\<open>return_type\<close>.
\<close>

record 't Constructor =
  argument_types :: "'t list"

record 't Method = "'t Constructor" +
  return_type :: 't

text \<open>
  The module \<^verbatim>\<open>types\<close> is not part of the checked source, so everything the checker
  uses of it is a parameter: the two distinguished types \<^verbatim>\<open>Type.null\<close> and
  \<^verbatim>\<open>Type.object\<close>, the attribute \<^verbatim>\<open>name\<close>, the test \<^verbatim>\<open>is_subtype_of\<close>, the lookup
  \<^verbatim>\<open>method_named\<close> (which may raise) and the attribute \<^verbatim>\<open>constructor\<close> (whose lookup
  may raise on a type object that has none). Types are compared with \<^verbatim>\<open>==\<close>, that is by
  identity: the type \<open>'t\<close> is the set of type objects.
\<close>

record 't type_model =
  Type_null :: 't
  Type_object :: 't
  name :: "'t \<Rightarrow> string"
  is_subtype_of :: "'t \<Rightarrow> 't \<Rightarrow> bool"
  method_named :: "'t \<Rightarrow> string \<Rightarrow> error + 't Method"
  constructor :: "'t \<Rightarrow> error + 't Constructor"

section \<open>Expressions\<close>

text \<open>
  The classes \<^verbatim>\<open>Variable(name, declared_type)\<close>, \<^verbatim>\<open>Literal(value, type)\<close>,
  \<^verbatim>\<open>NullLiteral()\<close>, \<^verbatim>\<open>MethodCall(receiver, method_name, *args)\<close> and
  \<^verbatim>\<open>ConstructorCall(instantiated_type, *args)\<close>.
\<close>

datatype 't Expression =
    Variable string 't
  | Literal string 't
  | NullLiteral
  | MethodCall "'t Expression" string "'t Expression list"
  | ConstructorCall 't "'t Expression list"

text \<open>
  The fields \<^verbatim>\<open>value\<close> and \<^verbatim>\<open>type\<close> of a literal. \<^verbatim>\<open>NullLiteral.__init__\<close> calls
  \<^verbatim>\<open>super().__init__("null", Type.null)\<close>. Other nodes have no such fields.
\<close>

fun literal_value :: "'t Expression \<Rightarrow> string option" where
  "literal_value (Literal v t) = Some v"
| "literal_value NullLiteral = Some ''null''"
| "literal_value _ = None"

fun literal_type :: "'t type_model \<Rightarrow> 't Expression \<Rightarrow> 't option" where
  "literal_type tm (Literal v t) = Some t"
| "literal_type tm NullLiteral = Some (Type_null tm)"
| "literal_type tm _ = None"

subsection \<open>\<^verbatim>\<open>static_type\<close>\<close>

fun static_type :: "'t type_model \<Rightarrow> 't Expression \<Rightarrow> error + 't" where
  "static_type tm (Variable n declared_type) = Inr declared_type"
| "static_type tm (Literal v t) = Inr t"
| "static_type tm NullLiteral = Inr (Type_null tm)"
| "static_type tm (MethodCall receiver method_name args) =
     (case static_type tm receiver of
        Inl e \<Rightarrow> Inl e
      | Inr T \<Rightarrow>
          (case method_named tm T method_name of
             Inl e \<Rightarrow> Inl e
           | Inr method \<Rightarrow> Inr (return_type method)))"
| "static_type tm (ConstructorCall instantiated_type args) = Inr instantiated_type"

subsection \<open>The argument-compatibility routine\<close>

text \<open>
  \<^verbatim>\<open>typecheck_arguments_function_call(args, types)\<close> loops over \<^verbatim>\<open>zip(args, types)\<close>,
  which stops at the end of the shorter sequence. \<^verbatim>\<open>arg.static_type()\<close> is evaluated
  at each position the loop reaches, and an exception it raises leaves the routine.
\<close>

fun typecheck_arguments_function_call ::
  "'t type_model \<Rightarrow> 't Expression list \<Rightarrow> 't list \<Rightarrow> error + bool" where
  "typecheck_arguments_function_call tm (arg # args) (type # types) =
     (case static_type tm arg of
        Inl e \<Rightarrow> Inl e
      | Inr t \<Rightarrow>
          if \<not> is_subtype_of tm t type then
            (if t = Type_null tm \<and> is_subtype_of tm type (Type_object tm)
             then typecheck_arguments_function_call tm args types
             else Inr False)
          else typecheck_arguments_function_call tm args types)"
| "typecheck_arguments_function_call tm [] types = Inr True"
| "typecheck_arguments_function_call tm args [] = Inr True"

subsection \<open>Error messages\<close>

text \<open>Python's \<^verbatim>\<open>str\<close> of a natural number (as \<^verbatim>\<open>format\<close> prints a length).\<close>

fun str :: "nat \<Rightarrow> string" where
  "str n = (if n < 10 then [''0123456789'' ! n]
            else str (n div 10) @ [''0123456789'' ! (n mod 10)])"

declare str.simps [simp del]

text \<open>\<^verbatim>\<open>sep.join(xs)\<close>.\<close>

fun join :: "string \<Rightarrow> string list \<Rightarrow> string" where
  "join sep [] = []"
| "join sep [x] = x"
| "join sep (x # y # ys) = x @ sep @ join sep (y # ys)"

text \<open>\<^verbatim>\<open>[receivedArg.static_type().name for receivedArg in self.args]\<close>\<close>

fun received_arguments :: "'t type_model \<Rightarrow> 't Expression list \<Rightarrow> error + string list" where
  "received_arguments tm [] = Inr []"
| "received_arguments tm (receivedArg # rest) =
     (case static_type tm receivedArg of
        Inl e \<Rightarrow> Inl e
      | Inr t \<Rightarrow>
          (case received_arguments tm rest of
             Inl e \<Rightarrow> Inl e
           | Inr ns \<Rightarrow> Inr (name tm t # ns)))"

text \<open>\<^verbatim>\<open>[expectedType.name for expectedType in method.argument_types]\<close>\<close>

definition expected_arguments :: "'t type_model \<Rightarrow> 't list \<Rightarrow> string list" where
  "expected_arguments tm types = map (name tm) types"

definition wrong_number_method :: "string \<Rightarrow> string \<Rightarrow> nat \<Rightarrow> nat \<Rightarrow> string" where
  "wrong_number_method type_name method_name expected got =
     ''Wrong number of arguments for '' @ type_name @ ''.'' @ method_name
       @ ''(): expected '' @ str expected @ '', got '' @ str got"

definition wrong_number_constructor :: "string \<Rightarrow> nat \<Rightarrow> nat \<Rightarrow> string" where
  "wrong_number_constructor type_name expected got =
     ''Wrong number of arguments for '' @ type_name
       @ '' constructor: expected '' @ str expected @ '', got '' @ str got"

definition mismatch_method :: "string \<Rightarrow> string \<Rightarrow> string list \<Rightarrow> string list \<Rightarrow> string" where
  "mismatch_method type_name method_name expected received =
     type_name @ ''.'' @ method_name @ ''() expects arguments of type (''
       @ join '', '' expected @ ''), but got ('' @ join '', '' received @ '')''"

definition mismatch_constructor :: "string \<Rightarrow> string list \<Rightarrow> string list \<Rightarrow> string" where
  "mismatch_constructor type_name expected received =
     type_name @ '' constructor expects arguments of type (''
       @ join '', '' expected @ ''), but got ('' @ join '', '' received @ '')''"

subsection \<open>\<^verbatim>\<open>check_types\<close>\<close>

text \<open>
  \<open>check_types\<close> returns \<open>Inr ()\<close> when the method returns normally and \<open>Inl e\<close> when
  it raises \<open>e\<close>. \<open>check_args\<close> is the loop \<^verbatim>\<open>for arg in self.args: arg.check_types()\<close>,
  which an exception leaves at once.
\<close>

fun check_types :: "'t type_model \<Rightarrow> 't Expression \<Rightarrow> error + unit"
  and check_args :: "'t type_model \<Rightarrow> 't Expression list \<Rightarrow> error + unit" where
  "check_types tm (Variable n declared_type) = Inr ()"
| "check_types tm (Literal v t) = Inr ()"
| "check_types tm NullLiteral = Inr ()"
| "check_types tm (MethodCall receiver method_name args) =
     (case check_args tm args of
        Inl e \<Rightarrow> Inl e
      | Inr _ \<Rightarrow>
     (case static_type tm receiver of
        Inl e \<Rightarrow> Inl e
      | Inr T \<Rightarrow>
          if T = Type_null tm then
            Inl (NoSuchMethod (''Cannot invoke method '' @ method_name @ ''() on '' @ name tm T))
          else if is_subtype_of tm T (Type_object tm) then
            (case method_named tm T method_name of
               Inl e \<Rightarrow> Inl e
             | Inr method \<Rightarrow>
                 if length args \<noteq> length (argument_types method) then
                   Inl (JavaTypeError (wrong_number_method (name tm T) method_name
                          (length (argument_types method)) (length args)))
                 else
                   (case typecheck_arguments_function_call tm args (argument_types method) of
                      Inl e \<Rightarrow> Inl e
                    | Inr ok \<Rightarrow>
                        if \<not> ok then
                          (case received_arguments tm args of
                             Inl e \<Rightarrow> Inl e
                           | Inr received \<Rightarrow>
                               Inl (JavaTypeError (mismatch_method (name tm T) method_name
                                      (expected_arguments tm (argument_types method)) received)))
                        else Inr ()))
          else Inl (JavaTypeError (''Type '' @ name tm T @ '' does not have methods''))))"
| "check_types tm (ConstructorCall instantiated_type args) =
     (case check_args tm args of
        Inl e \<Rightarrow> Inl e
      | Inr _ \<Rightarrow>
          if \<not> is_subtype_of tm instantiated_type (Type_object tm) then
            Inl (JavaTypeError (''Type '' @ name tm instantiated_type @ '' is not instantiable''))
          else
            (case constructor tm instantiated_type of
               Inl e \<Rightarrow> Inl e
             | Inr method \<Rightarrow>
                 if length args \<noteq> length (argument_types method) then
                   Inl (JavaTypeError (wrong_number_constructor (name tm instantiated_type)
                          (length (argument_types method)) (length args)))
                 else
                   (case typecheck_arguments_function_call tm args (argument_types method) of
                      Inl e \<Rightarrow> Inl e
                    | Inr ok \<Rightarrow>
                        if \<not> ok then
                          (case received_arguments tm args of
                             Inl e \<Rightarrow> Inl e
                           | Inr received \<Rightarrow>
                               Inl (JavaTypeError (mismatch_constructor (name tm instantiated_type)
                                      (expected_arguments tm (argument_types method)) received)))
                        else Inr ())))"
| "check_args tm [] = Inr ()"
| "check_args tm (arg # args) =
     (case check_types tm arg of
        Inl e \<Rightarrow> Inl e
      | Inr _ \<Rightarrow> check_args tm args)"

section \<open>A small type model for concrete runs\<close>

text \<open>
  Five type objects: the null type, \<^verbatim>\<open>Object\<close>, the primitives \<^verbatim>\<open>int\<close> and \<^verbatim>\<open>void\<close>,
  and a class \<^verbatim>\<open>Foo\<close> below \<^verbatim>\<open>Object\<close> with one method \<^verbatim>\<open>bar(int) -> void\<close> and a
  constructor that takes one \<^verbatim>\<open>Object\<close>. Subtyping is reflexive; the null type is below
  nothing but itself. Only the two classes have methods and constructors.
\<close>

datatype jtype = TNull | TObject | TInt | TVoid | TFoo

fun jname :: "jtype \<Rightarrow> string" where
  "jname TNull = ''null''"
| "jname TObject = ''Object''"
| "jname TInt = ''int''"
| "jname TVoid = ''void''"
| "jname TFoo = ''Foo''"

fun jsubtype :: "jtype \<Rightarrow> jtype \<Rightarrow> bool" where
  "jsubtype TFoo TObject = True"
| "jsubtype a b = (a = b)"

fun jmethod :: "jtype \<Rightarrow> string \<Rightarrow> error + jtype Method" where
  "jmethod TFoo m =
     (if m = ''bar'' then Inr \<lparr>argument_types = [TInt], return_type = TVoid\<rparr>
      else Inl (NoSuchMethod (''Foo has no method named '' @ m)))"
| "jmethod TObject m = Inl (NoSuchMethod (''Object has no method named '' @ m))"
| "jmethod T m = Inl (AttributeError ''method_named'')"

fun jconstructor :: "jtype \<Rightarrow> error + jtype Constructor" where
  "jconstructor TFoo = Inr \<lparr>argument_types = [TObject]\<rparr>"
| "jconstructor TObject = Inr \<lparr>argument_types = []\<rparr>"
| "jconstructor T = Inl (AttributeError ''constructor'')"

definition example_model :: "jtype type_model" where
  "example_model =
     \<lparr>Type_null = TNull, Type_object = TObject, name = jname,
      is_subtype_of = jsubtype, method_named = jmethod, constructor = jconstructor\<rparr>"

section \<open>Auxiliary facts\<close>

text \<open>The loop over the arguments returns normally iff every argument validates.\<close>

lemma check_args_Inr_iff:
  "check_args tm as = Inr u \<longleftrightarrow> (\<forall>a \<in> set as. check_types tm a = Inr ())"
  by (induction as) (auto split: sum.splits)

text \<open>
  The loop over the arguments raises the exception of the first argument whose own
  validation raises: the arguments before it have validated, and those after it are
  not reached.
\<close>

lemma check_args_first_failure:
  "\<forall>x \<in> set pre. check_types tm x = Inr () \<Longrightarrow> check_types tm a = Inl e \<Longrightarrow>
     check_args tm (pre @ a # post) = Inl e"
  by (induction pre) simp_all

lemma check_args_cases:
  "(\<forall>a \<in> set as. check_types tm a = Inr ()) \<and> check_args tm as = Inr ()
   \<or> (\<exists>pre a post e. as = pre @ a # post \<and> (\<forall>x \<in> set pre. check_types tm x = Inr ())
         \<and> check_types tm a = Inl e \<and> check_args tm as = Inl e)"
proof (induction as)
  case Nil
  then show ?case by simp
next
  case (Cons b bs)
  show ?case
  proof (cases "check_types tm b")
    case (Inl e)
    then have "b # bs = [] @ b # bs \<and> (\<forall>x \<in> set []. check_types tm x = Inr ())
                 \<and> check_types tm b = Inl e \<and> check_args tm (b # bs) = Inl e"
      by simp
    then show ?thesis by blast
  next
    case (Inr u)
    from Cons.IH show ?thesis
    proof
      assume "(\<forall>a \<in> set bs. check_types tm a = Inr ()) \<and> check_args tm bs = Inr ()"
      with Inr show ?thesis by simp
    next
      assume "\<exists>pre a post e. bs = pre @ a # post
                \<and> (\<forall>x \<in> set pre. check_types tm x = Inr ())
                \<and> check_types tm a = Inl e \<and> check_args tm bs = Inl e"
      then obtain pre a post e where h: "bs = pre @ a # post"
        "\<forall>x \<in> set pre. check_types tm x = Inr ()"
        "check_types tm a = Inl e" "check_args tm bs = Inl e"
        by blast
      with Inr have "b # bs = (b # pre) @ a # post
                 \<and> (\<forall>x \<in> set (b # pre). check_types tm x = Inr ())
                 \<and> check_types tm a = Inl e \<and> check_args tm (b # bs) = Inl e"
        by simp
      then show ?thesis by blast
    qed
  qed
qed

text \<open>
  Nothing but \<open>check_types\<close> reads the \<^verbatim>\<open>constructor\<close> attribute, and it reads it
  only on a type that passed the test against \<^verbatim>\<open>Type.object\<close>: the result is the same
  under any other constructor table that agrees on those types.
\<close>

lemma static_type_constructor_update [simp]:
  "static_type (tm\<lparr>constructor := c\<rparr>) e = static_type tm e"
  by (induction tm e rule: static_type.induct) (simp_all split: sum.splits)

lemma typecheck_arguments_constructor_update [simp]:
  "typecheck_arguments_function_call (tm\<lparr>constructor := c\<rparr>) as ts =
   typecheck_arguments_function_call tm as ts"
  by (induction tm as ts rule: typecheck_arguments_function_call.induct)
     (simp_all split: sum.splits)

lemma received_arguments_constructor_update [simp]:
  "received_arguments (tm\<lparr>constructor := c\<rparr>) as = received_arguments tm as"
  by (induction as) (simp_all split: sum.splits)

lemma expected_arguments_constructor_update [simp]:
  "expected_arguments (tm\<lparr>constructor := c\<rparr>) ts = expected_arguments tm ts"
  by (simp add: expected_arguments_def)

lemma check_types_constructor_update:
  "(\<forall>U. is_subtype_of tm U (Type_object tm) \<longrightarrow> c U = constructor tm U) \<Longrightarrow>
     check_types (tm\<lparr>constructor := c\<rparr>) e = check_types tm e"
  "(\<forall>U. is_subtype_of tm U (Type_object tm) \<longrightarrow> c U = constructor tm U) \<Longrightarrow>
     check_args (tm\<lparr>constructor := c\<rparr>) as = check_args tm as"
proof (induction tm e and tm as rule: check_types_check_args.induct)
  case (4 tm receiver method_name args)
  then show ?case by (simp cong: sum.case_cong if_cong)
next
  case (5 tm instantiated_type args)
  show ?case
  proof (cases "is_subtype_of tm instantiated_type (Type_object tm)")
    case True
    with "5.prems" have "c instantiated_type = constructor tm instantiated_type"
      by simp
    with "5.IH" "5.prems" True show ?thesis
      by (simp cong: sum.case_cong if_cong)
  next
    case False
    with "5.IH" "5.prems" show ?thesis
      by (simp cong: sum.case_cong)
  qed
next
  case (7 tm arg args)
  then show ?case by (simp split: sum.splits)
qed simp_all

section \<open>Leaf nodes\<close>

text \<open>
  Claim C9. For a \<^verbatim>\<open>Variable\<close>, a \<^verbatim>\<open>Literal\<close> and a \<^verbatim>\<open>NullLiteral\<close>,
  \<^verbatim>\<open>check_types()\<close> returns normally, and \<^verbatim>\<open>static_type()\<close> returns the declared
  type, the literal's type and \<^verbatim>\<open>Type.null\<close> respectively; the value of a
  \<^verbatim>\<open>NullLiteral\<close> is \<^verbatim>\<open>"null"\<close> and its type field is \<^verbatim>\<open>Type.null\<close>.
\<close>

theorem leaf_nodes_check_and_static_type:
  "check_types tm (Variable n declared_type) = Inr ()
   \<and> static_type tm (Variable n declared_type) = Inr declared_type
   \<and> check_types tm (Literal v t) = Inr ()
   \<and> static_type tm (Literal v t) = Inr t
   \<and> check_types tm NullLiteral = Inr ()
   \<and> static_type tm NullLiteral = Inr (Type_null tm)
   \<and> literal_value NullLiteral = Some ''null''
   \<and> literal_type tm NullLiteral = Some (Type_null tm)"
  by simp

section \<open>Method calls\<close>

text \<open>
  Claim C10. If \<^verbatim>\<open>check_types()\<close> returns normally on a \<^verbatim>\<open>MethodCall\<close>, then the
  receiver has a static type in the object category, the named method resolves on it,
  and \<^verbatim>\<open>static_type()\<close> of the same node returns that method's return type.
\<close>

theorem checked_method_call_has_static_type:
  assumes "check_types tm (MethodCall receiver method_name args) = Inr ()"
  shows "\<exists>T method. static_type tm receiver = Inr T
           \<and> is_subtype_of tm T (Type_object tm)
           \<and> method_named tm T method_name = Inr method
           \<and> static_type tm (MethodCall receiver method_name args) = Inr (return_type method)"
  using assms by (auto split: sum.splits if_splits)

text \<open>The call \<^verbatim>\<open>foo.bar(1)\<close> validates, and its static type is \<^verbatim>\<open>void\<close>.\<close>

theorem checked_method_call_has_static_type_witness:
  "check_types example_model (MethodCall (Variable ''foo'' TFoo) ''bar'' [Literal ''1'' TInt]) = Inr ()
   \<and> static_type example_model (MethodCall (Variable ''foo'' TFoo) ''bar'' [Literal ''1'' TInt]) = Inr TVoid"
  using checked_method_call_has_static_type
          [of example_model "Variable ''foo'' TFoo" "''bar''" "[Literal ''1'' TInt]"]
  by (simp add: example_model_def)

text \<open>
  Claim C2 as stated fails: in \<^verbatim>\<open>null.bar(new int())\<close> the receiver's static type is
  \<^verbatim>\<open>Type.null\<close>, but the argument is validated first and its \<^verbatim>\<open>JavaTypeError\<close> is
  the exception raised.
\<close>

theorem null_receiver_counterexample:
  "static_type example_model NullLiteral = Inr (Type_null example_model)
   \<and> check_types example_model (MethodCall NullLiteral ''bar'' [ConstructorCall TInt []])
       = Inl (JavaTypeError ''Type int is not instantiable'')"
  by (simp add: example_model_def)

text \<open>
  Claim C2, amended. A \<^verbatim>\<open>MethodCall\<close> whose receiver's static type is \<^verbatim>\<open>Type.null\<close>
  always fails, whatever the method name. When every argument passes its own
  \<^verbatim>\<open>check_types()\<close>, it fails with \<^verbatim>\<open>NoSuchMethod\<close>. When an argument fails its own
  \<^verbatim>\<open>check_types()\<close> and all arguments before it pass, the call fails with the exception
  of that argument.
\<close>

theorem null_receiver_fails:
  assumes "static_type tm receiver = Inr (Type_null tm)"
  shows "(\<exists>e. check_types tm (MethodCall receiver method_name args) = Inl e)
       \<and> ((\<forall>a \<in> set args. check_types tm a = Inr ()) \<longrightarrow>
            check_types tm (MethodCall receiver method_name args)
              = Inl (NoSuchMethod (''Cannot invoke method '' @ method_name @ ''() on ''
                                     @ name tm (Type_null tm))))
       \<and> ((\<forall>x \<in> set pre. check_types tm x = Inr ()) \<and> check_types tm a = Inl e' \<longrightarrow>
            check_types tm (MethodCall receiver method_name (pre @ a # post)) = Inl e')"
proof (intro conjI impI)
  show "\<exists>e. check_types tm (MethodCall receiver method_name args) = Inl e"
    using assms by (cases "check_args tm args") simp_all
next
  assume "\<forall>a \<in> set args. check_types tm a = Inr ()"
  then have "check_args tm args = Inr ()"
    by (simp add: check_args_Inr_iff)
  with assms show "check_types tm (MethodCall receiver method_name args)
              = Inl (NoSuchMethod (''Cannot invoke method '' @ method_name @ ''() on ''
                                     @ name tm (Type_null tm)))"
    by simp
next
  assume "(\<forall>x \<in> set pre. check_types tm x = Inr ()) \<and> check_types tm a = Inl e'"
  then have "check_args tm (pre @ a # post) = Inl e'"
    by (simp add: check_args_first_failure)
  then show "check_types tm (MethodCall receiver method_name (pre @ a # post)) = Inl e'"
    by simp
qed

text \<open>
  \<^verbatim>\<open>null.bar(1)\<close> raises \<^verbatim>\<open>NoSuchMethod\<close>; \<^verbatim>\<open>null.bar(1, new int(), null.baz())\<close> raises
  the error of \<^verbatim>\<open>new int()\<close>, its first failing argument.
\<close>

theorem null_receiver_fails_witness:
  "static_type example_model NullLiteral = Inr (Type_null example_model)
   \<and> check_types example_model (Literal ''1'' TInt) = Inr ()
   \<and> check_types example_model (ConstructorCall TInt [])
       = Inl (JavaTypeError ''Type int is not instantiable'')
   \<and> check_types example_model (MethodCall NullLiteral ''bar'' [Literal ''1'' TInt])
       = Inl (NoSuchMethod ''Cannot invoke method bar() on null'')
   \<and> check_types example_model
        (MethodCall NullLiteral ''bar''
           [Literal ''1'' TInt, ConstructorCall TInt [], MethodCall NullLiteral ''baz'' []])
       = Inl (JavaTypeError ''Type int is not instantiable'')"
  using null_receiver_fails
    [where tm = example_model and receiver = NullLiteral and method_name = "''bar''"
       and args = "[Literal ''1'' TInt]" and pre = "[Literal ''1'' TInt]"
       and a = "ConstructorCall TInt []" and post = "[MethodCall NullLiteral ''baz'' []]"
       and e' = "JavaTypeError ''Type int is not instantiable''"]
  by (simp add: example_model_def)

text \<open>
  Claim C8 as stated fails: in \<^verbatim>\<open>1.bar(null.baz())\<close> the receiver's static type
  \<^verbatim>\<open>int\<close> is neither \<^verbatim>\<open>Type.null\<close> nor in the object category, but the argument is
  validated first and its \<^verbatim>\<open>NoSuchMethod\<close> is the exception raised.
\<close>

theorem no_methods_counterexample:
  "static_type example_model (Literal ''1'' TInt) = Inr TInt
   \<and> TInt \<noteq> Type_null example_model
   \<and> \<not> is_subtype_of example_model TInt (Type_object example_model)
   \<and> check_types example_model
        (MethodCall (Literal ''1'' TInt) ''bar'' [MethodCall NullLiteral ''baz'' []])
       = Inl (NoSuchMethod ''Cannot invoke method baz() on null'')"
  by (simp add: example_model_def)

text \<open>
  Claim C8, amended. A \<^verbatim>\<open>MethodCall\<close> whose receiver's static type \<open>T\<close> is neither
  \<^verbatim>\<open>Type.null\<close> nor a subtype of \<^verbatim>\<open>Type.object\<close> always fails. When every argument
  passes its own \<^verbatim>\<open>check_types()\<close>, it fails with the \<^verbatim>\<open>JavaTypeError\<close> that \<open>T\<close> does
  not have methods. When an argument fails its own \<^verbatim>\<open>check_types()\<close> and all
  arguments before it pass, the call fails with the exception of that argument.
  Nothing is assumed of what \<^verbatim>\<open>method_named\<close> would return on \<open>T\<close>: no resolution,
  arity or compatibility check decides the result.
\<close>

theorem no_methods_fails:
  assumes "static_type tm receiver = Inr T"
    and "T \<noteq> Type_null tm"
    and "\<not> is_subtype_of tm T (Type_object tm)"
  shows "(\<exists>e. check_types tm (MethodCall receiver method_name args) = Inl e)
       \<and> ((\<forall>a \<in> set args. check_types tm a = Inr ()) \<longrightarrow>
            check_types tm (MethodCall receiver method_name args)
              = Inl (JavaTypeError (''Type '' @ name tm T @ '' does not have methods'')))
       \<and> ((\<forall>x \<in> set pre. check_types tm x = Inr ()) \<and> check_types tm a = Inl e' \<longrightarrow>
            check_types tm (MethodCall receiver method_name (pre @ a # post)) = Inl e')"
proof (intro conjI impI)
  show "\<exists>e. check_types tm (MethodCall receiver method_name args) = Inl e"
    using assms by (cases "check_args tm args") simp_all
next
  assume "\<forall>a \<in> set args. check_types tm a = Inr ()"
  then have "check_args tm args = Inr ()"
    by (simp add: check_args_Inr_iff)
  with assms show "check_types tm (MethodCall receiver method_name args)
              = Inl (JavaTypeError (''Type '' @ name tm T @ '' does not have methods''))"
    by simp
next
  assume "(\<forall>x \<in> set pre. check_types tm x = Inr ()) \<and> check_types tm a = Inl e'"
  then have "check_args tm (pre @ a # post) = Inl e'"
    by (simp add: check_args_first_failure)
  then show "check_types tm (MethodCall receiver method_name (pre @ a # post)) = Inl e'"
    by simp
qed

text \<open>
  \<^verbatim>\<open>1.bar(null)\<close> raises the does-not-have-methods error; \<^verbatim>\<open>1.bar(null, null.baz(),
  new int())\<close> raises the error of \<^verbatim>\<open>null.baz()\<close>, its first failing argument.
\<close>

theorem no_methods_fails_witness:
  "static_type example_model (Literal ''1'' TInt) = Inr TInt
   \<and> TInt \<noteq> Type_null example_model
   \<and> \<not> is_subtype_of example_model TInt (Type_object example_model)
   \<and> check_types example_model NullLiteral = Inr ()
   \<and> check_types example_model (MethodCall NullLiteral ''baz'' [])
       = Inl (NoSuchMethod ''Cannot invoke method baz() on null'')
   \<and> check_types example_model (MethodCall (Literal ''1'' TInt) ''bar'' [NullLiteral])
       = Inl (JavaTypeError ''Type int does not have methods'')
   \<and> check_types example_model
        (MethodCall (Literal ''1'' TInt) ''bar''
           [NullLiteral, MethodCall NullLiteral ''baz'' [], ConstructorCall TInt []])
       = Inl (NoSuchMethod ''Cannot invoke method baz() on null'')"
  using no_methods_fails
    [where tm = example_model and receiver = "Literal ''1'' TInt" and T = TInt
       and method_name = "''bar''" and args = "[NullLiteral]" and pre = "[NullLiteral]"
       and a = "MethodCall NullLiteral ''baz'' []" and post = "[ConstructorCall TInt []]"
       and e' = "NoSuchMethod ''Cannot invoke method baz() on null''"]
  by (simp add: example_model_def)

section \<open>Constructor calls\<close>

text \<open>
  Claim C7 as stated fails: in \<^verbatim>\<open>new int(null.baz())\<close> the type \<^verbatim>\<open>int\<close> is not a subtype
  of \<^verbatim>\<open>Type.object\<close>, but the argument is validated first and its \<^verbatim>\<open>NoSuchMethod\<close> is
  the exception raised, not a \<^verbatim>\<open>JavaTypeError\<close>.
\<close>

theorem not_instantiable_counterexample:
  "\<not> is_subtype_of example_model TInt (Type_object example_model)
   \<and> check_types example_model (ConstructorCall TInt [MethodCall NullLiteral ''baz'' []])
       = Inl (NoSuchMethod ''Cannot invoke method baz() on null'')"
  by (simp add: example_model_def)

text \<open>
  Claim C7, amended. A \<^verbatim>\<open>ConstructorCall\<close> whose instantiated type is not a subtype of
  \<^verbatim>\<open>Type.object\<close> always fails. When every argument passes its own \<^verbatim>\<open>check_types()\<close>,
  it fails with the \<^verbatim>\<open>JavaTypeError\<close> that the type is not instantiable. When an
  argument fails its own \<^verbatim>\<open>check_types()\<close> and all arguments before it pass, the call
  fails with the exception of that argument: the test comes after the loop over the
  arguments. The type's constructor is never looked up: whatever the \<^verbatim>\<open>constructor\<close>
  attribute of that type is replaced with, the result is the same.
\<close>

theorem not_instantiable:
  assumes "\<not> is_subtype_of tm instantiated_type (Type_object tm)"
  shows "(\<exists>e. check_types tm (ConstructorCall instantiated_type args) = Inl e)
       \<and> ((\<forall>a \<in> set args. check_types tm a = Inr ()) \<longrightarrow>
            check_types tm (ConstructorCall instantiated_type args)
              = Inl (JavaTypeError (''Type '' @ name tm instantiated_type
                                      @ '' is not instantiable'')))
       \<and> ((\<forall>x \<in> set pre. check_types tm x = Inr ()) \<and> check_types tm a = Inl e' \<longrightarrow>
            check_types tm (ConstructorCall instantiated_type (pre @ a # post)) = Inl e')
       \<and> check_types (tm\<lparr>constructor := (constructor tm)(instantiated_type := c)\<rparr>)
             (ConstructorCall instantiated_type args)
           = check_types tm (ConstructorCall instantiated_type args)"
proof (intro conjI impI)
  show "\<exists>e. check_types tm (ConstructorCall instantiated_type args) = Inl e"
    using assms by (cases "check_args tm args") simp_all
next
  assume "\<forall>a \<in> set args. check_types tm a = Inr ()"
  then have "check_args tm args = Inr ()"
    by (simp add: check_args_Inr_iff)
  with assms show "check_types tm (ConstructorCall instantiated_type args)
              = Inl (JavaTypeError (''Type '' @ name tm instantiated_type
                                      @ '' is not instantiable''))"
    by simp
next
  assume "(\<forall>x \<in> set pre. check_types tm x = Inr ()) \<and> check_types tm a = Inl e'"
  then have "check_args tm (pre @ a # post) = Inl e'"
    by (simp add: check_args_first_failure)
  then show "check_types tm (ConstructorCall instantiated_type (pre @ a # post)) = Inl e'"
    by simp
next
  have "\<forall>U. is_subtype_of tm U (Type_object tm) \<longrightarrow>
          ((constructor tm)(instantiated_type := c)) U = constructor tm U"
    using assms by auto
  then show "check_types (tm\<lparr>constructor := (constructor tm)(instantiated_type := c)\<rparr>)
             (ConstructorCall instantiated_type args)
           = check_types tm (ConstructorCall instantiated_type args)"
    by (rule check_types_constructor_update(1))
qed

text \<open>
  \<^verbatim>\<open>new int(1, null)\<close> is not instantiable, also when \<^verbatim>\<open>int\<close> is given a constructor of
  two parameters; \<^verbatim>\<open>new int(1, null.baz(), new void())\<close> raises the error of
  \<^verbatim>\<open>null.baz()\<close>, its first failing argument.
\<close>

theorem not_instantiable_witness:
  "\<not> is_subtype_of example_model TInt (Type_object example_model)
   \<and> check_types example_model (Literal ''1'' TInt) = Inr ()
   \<and> check_types example_model NullLiteral = Inr ()
   \<and> check_types example_model (MethodCall NullLiteral ''baz'' [])
       = Inl (NoSuchMethod ''Cannot invoke method baz() on null'')
   \<and> check_types example_model (ConstructorCall TInt [Literal ''1'' TInt, NullLiteral])
       = Inl (JavaTypeError ''Type int is not instantiable'')
   \<and> check_types example_model
        (ConstructorCall TInt
           [Literal ''1'' TInt, MethodCall NullLiteral ''baz'' [], ConstructorCall TVoid []])
       = Inl (NoSuchMethod ''Cannot invoke method baz() on null'')
   \<and> check_types (example_model\<lparr>constructor := (constructor example_model)
                                     (TInt := Inr \<lparr>argument_types = [TInt, TObject]\<rparr>)\<rparr>)
        (ConstructorCall TInt [Literal ''1'' TInt, NullLiteral])
       = Inl (JavaTypeError ''Type int is not instantiable'')"
  using not_instantiable
    [where tm = example_model and instantiated_type = TInt
       and args = "[Literal ''1'' TInt, NullLiteral]" and pre = "[Literal ''1'' TInt]"
       and a = "MethodCall NullLiteral ''baz'' []" and post = "[ConstructorCall TVoid []]"
       and e' = "NoSuchMethod ''Cannot invoke method baz() on null''"
       and c = "Inr \<lparr>argument_types = [TInt, TObject]\<rparr>"]
  by (simp add: example_model_def)

section \<open>The receiver of a method call\<close>

text \<open>
  Claim C1. \<^verbatim>\<open>check_types()\<close> is to validate the whole subtree below a call, the
  receiver of a \<^verbatim>\<open>MethodCall\<close> included. \<^verbatim>\<open>MethodCall.check_types\<close> loops over the
  arguments only and reads the receiver's \<^verbatim>\<open>static_type()\<close> without validating the
  receiver: \<^verbatim>\<open>new Foo()\<close> fails its own validation (the constructor of \<^verbatim>\<open>Foo\<close> takes
  one argument), and \<^verbatim>\<open>new Foo().bar(1)\<close> validates.
\<close>

theorem receiver_is_not_validated:
  "check_types example_model (ConstructorCall TFoo [])
     = Inl (JavaTypeError ''Wrong number of arguments for Foo constructor: expected 1, got 0'')
   \<and> check_types example_model (MethodCall (ConstructorCall TFoo []) ''bar'' [Literal ''1'' TInt])
     = Inr ()"
  by (simp add: example_model_def wrong_number_constructor_def str.simps)

section \<open>Totality of \<^verbatim>\<open>static_type\<close>\<close>

text \<open>
  Claim C3 as stated fails: \<^verbatim>\<open>MethodCall.static_type\<close> calls \<^verbatim>\<open>method_named\<close>, and
  the exception of a method that does not resolve leaves \<^verbatim>\<open>static_type()\<close>. The class
  \<^verbatim>\<open>Foo\<close> has no method \<^verbatim>\<open>baz\<close>.
\<close>

theorem static_type_counterexample:
  "static_type example_model (MethodCall (Variable ''foo'' TFoo) ''baz'' [])
     = Inl (NoSuchMethod ''Foo has no method named baz'')"
  by (simp add: example_model_def)

text \<open>
  Claim C3, amended. \<^verbatim>\<open>static_type()\<close> never fails on a node that is not a
  \<^verbatim>\<open>MethodCall\<close>. On a \<^verbatim>\<open>MethodCall\<close> it returns a type exactly when the receiver's
  \<^verbatim>\<open>static_type()\<close> returns a type \<open>T\<close> and \<^verbatim>\<open>method_named\<close> resolves the method name
  on \<open>T\<close>, and the type it returns is that method's return type. Otherwise the
  failure propagates unchanged: the exception of the receiver's \<^verbatim>\<open>static_type()\<close>
  when that fails, and else the exception of \<^verbatim>\<open>method_named\<close>. It is a function of
  the node and the type model alone, so no call of \<^verbatim>\<open>check_types()\<close> changes it.
\<close>

theorem static_type_total_except_method_call:
  "(\<not> (\<exists>r m as. e = MethodCall r m as) \<longrightarrow> (\<exists>t. static_type tm e = Inr t))
   \<and> ((\<exists>t. static_type tm (MethodCall receiver method_name args) = Inr t) \<longleftrightarrow>
        (\<exists>T resolved. static_type tm receiver = Inr T \<and> method_named tm T method_name = Inr resolved))
   \<and> (static_type tm receiver = Inr T \<and> method_named tm T method_name = Inr resolved \<longrightarrow>
        static_type tm (MethodCall receiver method_name args) = Inr (return_type resolved))
   \<and> (static_type tm receiver = Inl err \<longrightarrow>
        static_type tm (MethodCall receiver method_name args) = Inl err)
   \<and> (static_type tm receiver = Inr T \<and> method_named tm T method_name = Inl err \<longrightarrow>
        static_type tm (MethodCall receiver method_name args) = Inl err)"
proof (intro conjI)
  show "\<not> (\<exists>r m as. e = MethodCall r m as) \<longrightarrow> (\<exists>t. static_type tm e = Inr t)"
    by (cases e) simp_all
next
  show "(\<exists>t. static_type tm (MethodCall receiver method_name args) = Inr t) \<longleftrightarrow>
        (\<exists>T resolved. static_type tm receiver = Inr T \<and> method_named tm T method_name = Inr resolved)"
    by (auto split: sum.splits)
next
  show "static_type tm receiver = Inr T \<and> method_named tm T method_name = Inr resolved \<longrightarrow>
        static_type tm (MethodCall receiver method_name args) = Inr (return_type resolved)"
    by simp
next
  show "static_type tm receiver = Inl err \<longrightarrow>
        static_type tm (MethodCall receiver method_name args) = Inl err"
    by simp
next
  show "static_type tm receiver = Inr T \<and> method_named tm T method_name = Inl err \<longrightarrow>
        static_type tm (MethodCall receiver method_name args) = Inl err"
    by simp
qed

text \<open>
  \<^verbatim>\<open>new int()\<close> has the static type \<^verbatim>\<open>int\<close> although it does not validate, and
  \<^verbatim>\<open>foo.bar()\<close> has the static type \<^verbatim>\<open>void\<close> although its arity is wrong. In
  \<^verbatim>\<open>foo.baz()\<close> the exception of \<^verbatim>\<open>method_named\<close> leaves \<^verbatim>\<open>static_type()\<close>, and in
  \<^verbatim>\<open>foo.baz().bar()\<close> the exception of the receiver \<^verbatim>\<open>foo.baz()\<close> does.
\<close>

theorem static_type_total_except_method_call_witness:
  "static_type example_model (ConstructorCall TInt []) = Inr TInt
   \<and> static_type example_model (Variable ''foo'' TFoo) = Inr TFoo
   \<and> method_named example_model TFoo ''bar'' = Inr \<lparr>argument_types = [TInt], return_type = TVoid\<rparr>
   \<and> static_type example_model (MethodCall (Variable ''foo'' TFoo) ''bar'' []) = Inr TVoid
   \<and> method_named example_model TFoo ''baz'' = Inl (NoSuchMethod ''Foo has no method named baz'')
   \<and> static_type example_model (MethodCall (Variable ''foo'' TFoo) ''baz'' [])
       = Inl (NoSuchMethod ''Foo has no method named baz'')
   \<and> static_type example_model (MethodCall (MethodCall (Variable ''foo'' TFoo) ''baz'' []) ''bar'' [])
       = Inl (NoSuchMethod ''Foo has no method named baz'')"
  using static_type_total_except_method_call
    [where e = "ConstructorCall TInt []" and tm = example_model
       and receiver = "Variable ''foo'' TFoo" and method_name = "''bar''" and args = "[]"
       and T = TFoo and resolved = "\<lparr>argument_types = [TInt], return_type = TVoid\<rparr>"]
    static_type_total_except_method_call
    [where tm = example_model
       and receiver = "Variable ''foo'' TFoo" and method_name = "''baz''" and args = "[]"
       and T = TFoo and err = "NoSuchMethod ''Foo has no method named baz''"]
    static_type_total_except_method_call
    [where tm = example_model
       and receiver = "MethodCall (Variable ''foo'' TFoo) ''baz'' []"
       and method_name = "''bar''" and args = "[]"
       and err = "NoSuchMethod ''Foo has no method named baz''"]
  by (simp add: example_model_def)

section \<open>Argument compatibility\<close>

lemma typecheck_arguments_True_iff:
  "typecheck_arguments_function_call tm args types = Inr True \<longleftrightarrow>
     (\<forall>i < min (length args) (length types).
        \<exists>t. static_type tm (args ! i) = Inr t
           \<and> (is_subtype_of tm t (types ! i)
              \<or> (t = Type_null tm \<and> is_subtype_of tm (types ! i) (Type_object tm))))"
proof (induction tm args types rule: typecheck_arguments_function_call.induct)
  case (1 tm arg args type types)
  then show ?case
    by (cases "static_type tm arg") (auto simp: All_less_Suc2)
next
  case (2 tm types)
  then show ?case by simp
next
  case (3 tm args)
  then show ?case by simp
qed

lemma typecheck_arguments_take:
  "typecheck_arguments_function_call tm (take (length types) args) (take (length args) types)
     = typecheck_arguments_function_call tm args types"
proof (induction tm args types rule: typecheck_arguments_function_call.induct)
  case (1 tm arg args type types)
  then show ?case by (simp split: sum.splits)
next
  case (2 tm types)
  then show ?case by simp
next
  case (3 tm args)
  then show ?case by (cases args) simp_all
qed

text \<open>
  Claim C6. The routine returns \<^verbatim>\<open>True\<close> iff at every position below the length of the
  shorter sequence the argument has a static type that is a subtype of the expected
  type, or is \<^verbatim>\<open>Type.null\<close> while the expected type is a subtype of \<^verbatim>\<open>Type.object\<close>.
  Positions beyond the shorter length are ignored: the result is that of the two
  sequences cut to the shorter length. The counts are never judged: with no arguments,
  or with no expected types, the routine returns \<^verbatim>\<open>True\<close>.
\<close>

theorem typecheck_arguments_positional:
  "(typecheck_arguments_function_call tm args types = Inr True \<longleftrightarrow>
      (\<forall>i < min (length args) (length types).
         \<exists>t. static_type tm (args ! i) = Inr t
            \<and> (is_subtype_of tm t (types ! i)
               \<or> (t = Type_null tm \<and> is_subtype_of tm (types ! i) (Type_object tm)))))
   \<and> typecheck_arguments_function_call tm args types
       = typecheck_arguments_function_call tm
           (take (min (length args) (length types)) args)
           (take (min (length args) (length types)) types)
   \<and> typecheck_arguments_function_call tm [] types = Inr True
   \<and> typecheck_arguments_function_call tm args [] = Inr True"
proof (intro conjI)
  show "typecheck_arguments_function_call tm args types = Inr True \<longleftrightarrow>
      (\<forall>i < min (length args) (length types).
         \<exists>t. static_type tm (args ! i) = Inr t
            \<and> (is_subtype_of tm t (types ! i)
               \<or> (t = Type_null tm \<and> is_subtype_of tm (types ! i) (Type_object tm))))"
    by (rule typecheck_arguments_True_iff)
next
  have a: "take (min (length args) (length types)) args = take (length types) args"
    by (simp add: min_def)
  have b: "take (min (length args) (length types)) types = take (length args) types"
    by (simp add: min_def)
  show "typecheck_arguments_function_call tm args types
       = typecheck_arguments_function_call tm
           (take (min (length args) (length types)) args)
           (take (min (length args) (length types)) types)"
    unfolding a b by (rule typecheck_arguments_take [symmetric])
next
  show "typecheck_arguments_function_call tm [] types = Inr True"
    by simp
next
  show "typecheck_arguments_function_call tm args [] = Inr True"
    by (cases args) simp_all
qed

text \<open>
  \<^verbatim>\<open>(null, 1)\<close> against \<^verbatim>\<open>(Foo)\<close>: the one pair is compatible and the second argument is
  ignored. \<^verbatim>\<open>(1)\<close> against \<^verbatim>\<open>(Foo, int)\<close>: the one pair is incompatible.
\<close>

theorem typecheck_arguments_positional_witness:
  "typecheck_arguments_function_call example_model [NullLiteral, Literal ''1'' TInt] [TFoo]
     = Inr True
   \<and> typecheck_arguments_function_call example_model [NullLiteral] [TFoo] = Inr True
   \<and> typecheck_arguments_function_call example_model [Literal ''1'' TInt] [TFoo, TInt]
     = Inr False"
  using typecheck_arguments_positional
          [of example_model "[NullLiteral, Literal ''1'' TInt]" "[TFoo]"]
  by (simp add: example_model_def)

text \<open>
  Claim C4 as stated fails: the ordinary subtype test comes first, also for a null
  argument. Against the expected type \<^verbatim>\<open>Type.null\<close>, which is not a subtype of
  \<^verbatim>\<open>Type.object\<close>, the null literal is compatible where subtyping is reflexive.
\<close>

theorem null_argument_counterexample:
  "static_type example_model NullLiteral = Inr (Type_null example_model)
   \<and> \<not> is_subtype_of example_model TNull (Type_object example_model)
   \<and> typecheck_arguments_function_call example_model [NullLiteral] [TNull] = Inr True"
  by (simp add: example_model_def)

text \<open>
  Claim C4, amended. An argument whose static type is \<^verbatim>\<open>Type.null\<close> is compatible with
  an expected type iff \<^verbatim>\<open>Type.null\<close> is a subtype of the expected type or the expected
  type is a subtype of \<^verbatim>\<open>Type.object\<close>. So it is accepted for every expected type in
  the object category, whether or not \<^verbatim>\<open>Type.null.is_subtype_of(Type.object)\<close> holds,
  and for an expected type outside the object category it is rejected exactly when
  \<^verbatim>\<open>Type.null\<close> is not a subtype of that type.
\<close>

theorem null_argument_compatible:
  assumes "static_type tm arg = Inr (Type_null tm)"
  shows "typecheck_arguments_function_call tm [arg] [type] =
           Inr (is_subtype_of tm (Type_null tm) type \<or> is_subtype_of tm type (Type_object tm))"
  using assms by simp

text \<open>
  In the example model \<^verbatim>\<open>Type.null\<close> is not a subtype of \<^verbatim>\<open>Type.object\<close>; the null
  literal is accepted for \<^verbatim>\<open>Foo\<close> and rejected for \<^verbatim>\<open>int\<close>.
\<close>

theorem null_argument_compatible_witness:
  "static_type example_model NullLiteral = Inr (Type_null example_model)
   \<and> \<not> is_subtype_of example_model (Type_null example_model) (Type_object example_model)
   \<and> typecheck_arguments_function_call example_model [NullLiteral] [TFoo] = Inr True
   \<and> typecheck_arguments_function_call example_model [NullLiteral] [TInt] = Inr False"
  using null_argument_compatible [of example_model NullLiteral TFoo]
        null_argument_compatible [of example_model NullLiteral TInt]
  by (simp add: example_model_def)

section \<open>Arity\<close>

text \<open>
  Claim C5 as stated fails: in \<^verbatim>\<open>new Object(new int())\<close> the type is instantiable and
  one argument is given where the constructor takes none, but the argument is validated
  first and its not-instantiable error is the exception raised.
\<close>

theorem wrong_number_counterexample:
  "is_subtype_of example_model TObject (Type_object example_model)
   \<and> constructor example_model TObject = Inr \<lparr>argument_types = []\<rparr>
   \<and> length [ConstructorCall TInt []] \<noteq> length ([] :: jtype list)
   \<and> check_types example_model (ConstructorCall TObject [ConstructorCall TInt []])
       = Inl (JavaTypeError ''Type int is not instantiable'')"
  by (simp add: example_model_def)

text \<open>
  Claim C5, amended. Let every argument pass its own validation. A \<^verbatim>\<open>MethodCall\<close>
  whose receiver's static type is not \<^verbatim>\<open>Type.null\<close> and is a subtype of \<^verbatim>\<open>Type.object\<close>,
  on which the method resolves, and a \<^verbatim>\<open>ConstructorCall\<close> of a subtype of
  \<^verbatim>\<open>Type.object\<close> that has a constructor, fail with the wrong-number-of-arguments
  \<^verbatim>\<open>JavaTypeError\<close> when the number of arguments differs from the number of parameter
  types. The message holds the expected count and then the actual count. Nothing is
  assumed of the arguments' static types.
\<close>

theorem wrong_number_of_arguments:
  assumes "check_args tm args = Inr ()"
  shows "(static_type tm receiver = Inr T \<and> T \<noteq> Type_null tm
            \<and> is_subtype_of tm T (Type_object tm)
            \<and> method_named tm T method_name = Inr resolved
            \<and> length args \<noteq> length (argument_types resolved)
          \<longrightarrow> check_types tm (MethodCall receiver method_name args)
                = Inl (JavaTypeError (''Wrong number of arguments for '' @ name tm T @ ''.''
                         @ method_name @ ''(): expected '' @ str (length (argument_types resolved))
                         @ '', got '' @ str (length args))))
       \<and> (is_subtype_of tm instantiated_type (Type_object tm)
            \<and> constructor tm instantiated_type = Inr ctor
            \<and> length args \<noteq> length (argument_types ctor)
          \<longrightarrow> check_types tm (ConstructorCall instantiated_type args)
                = Inl (JavaTypeError (''Wrong number of arguments for '' @ name tm instantiated_type
                         @ '' constructor: expected '' @ str (length (argument_types ctor))
                         @ '', got '' @ str (length args))))"
  using assms by (simp add: wrong_number_method_def wrong_number_constructor_def)

text \<open>
  \<^verbatim>\<open>foo.bar(null, null)\<close> and \<^verbatim>\<open>new Foo(null, null)\<close>: one parameter, two arguments.
\<close>

theorem wrong_number_of_arguments_witness:
  "check_args example_model [NullLiteral, NullLiteral] = Inr ()
   \<and> check_types example_model (MethodCall (Variable ''foo'' TFoo) ''bar'' [NullLiteral, NullLiteral])
       = Inl (JavaTypeError ''Wrong number of arguments for Foo.bar(): expected 1, got 2'')
   \<and> check_types example_model (ConstructorCall TFoo [NullLiteral, NullLiteral])
       = Inl (JavaTypeError ''Wrong number of arguments for Foo constructor: expected 1, got 2'')"
  using wrong_number_of_arguments
    [where tm = example_model and args = "[NullLiteral, NullLiteral]"
       and receiver = "Variable ''foo'' TFoo" and T = TFoo and method_name = "''bar''"
       and resolved = "\<lparr>argument_types = [TInt], return_type = TVoid\<rparr>"
       and instantiated_type = TFoo and ctor = "\<lparr>argument_types = [TObject]\<rparr>"]
  by (simp add: example_model_def str.simps)

end
